theory Spec2Isabelle
  imports Complex_Main "HOL-Library.Multiset"
begin

section \<open>JavaScript values used by the dashboard modules\<close>

text \<open>
  A JavaScript number is a double: a finite value, one of the two infinities, or NaN.
  Every finite double is a rational, and the relational operators compare the
  mathematical values, so a finite number is modelled by its rational value. The
  comparison operators follow ECMAScript: every comparison with NaN is false.
\<close>

datatype number = NaN | NegInf | Fin rat | PosInf

fun num_lt :: "number \<Rightarrow> number \<Rightarrow> bool" where
  "num_lt (Fin a) (Fin b) = (a < b)"
| "num_lt NegInf (Fin b) = True"
| "num_lt NegInf PosInf = True"
| "num_lt (Fin a) PosInf = True"
| "num_lt _ _ = False"

definition num_gt :: "number \<Rightarrow> number \<Rightarrow> bool" where
  "num_gt a b = num_lt b a"

definition num_le :: "number \<Rightarrow> number \<Rightarrow> bool" where
  "num_le a b = (a \<noteq> NaN \<and> b \<noteq> NaN \<and> \<not> num_lt b a)"

section \<open>Severity and risk display classes\<close>

text \<open>
  \<^verbatim>\<open>getSeverityClass: function(severity) {
      if (severity <= 3) return 'success';
      if (severity <= 6) return 'warning';
      return 'danger';
  }\<close>
  The function is written out three times, in \<^verbatim>\<open>health_dashboard.js\<close>,
  \<^verbatim>\<open>symptom_timeline.js\<close> and \<^verbatim>\<open>family_profiles.js\<close>.
\<close>

definition dashboard_getSeverityClass :: "number \<Rightarrow> string" where
  "dashboard_getSeverityClass severity =
     (if num_le severity (Fin 3) then ''success''
      else if num_le severity (Fin 6) then ''warning''
      else ''danger'')"

definition timeline_getSeverityClass :: "number \<Rightarrow> string" where
  "timeline_getSeverityClass severity =
     (if num_le severity (Fin 3) then ''success''
      else if num_le severity (Fin 6) then ''warning''
      else ''danger'')"

definition family_getSeverityClass :: "number \<Rightarrow> string" where
  "family_getSeverityClass severity =
     (if num_le severity (Fin 3) then ''success''
      else if num_le severity (Fin 6) then ''warning''
      else ''danger'')"

text \<open>
  The severity classes as the specification words them: \<open>success\<close> when the severity
  is at most 3, \<open>warning\<close> when it is above 3 and at most 6, \<open>danger\<close> otherwise.
\<close>

definition spec_severity_class :: "number \<Rightarrow> string" where
  "spec_severity_class severity =
     (if num_le severity (Fin 3) then ''success''
      else if num_lt (Fin 3) severity \<and> num_le severity (Fin 6) then ''warning''
      else ''danger'')"

text \<open>
  The risk class of an assessment. \<^verbatim>\<open>risk_level\<close> is compared with \<^verbatim>\<open>===\<close>, so a
  missing or non-string value (\<open>None\<close>) equals none of the four names.

  \<^verbatim>\<open>health_dashboard.js\<close> and \<^verbatim>\<open>health_risk_predictor.js\<close>:
  \<^verbatim>\<open>let riskClass = 'secondary';
  if (assessment.risk_level === 'low') riskClass = 'success';
  if (assessment.risk_level === 'moderate') riskClass = 'warning';
  if (assessment.risk_level === 'high') riskClass = 'danger';
  if (assessment.risk_level === 'critical') riskClass = 'dark';\<close>

  \<^verbatim>\<open>family_profiles.js\<close>:
  \<^verbatim>\<open>let riskClass = 'success';
  if (risk.risk_level === 'moderate') riskClass = 'warning';
  if (risk.risk_level === 'high') riskClass = 'danger';
  if (risk.risk_level === 'critical') riskClass = 'dark';\<close>
\<close>

definition dashboard_riskClass :: "string option \<Rightarrow> string" where
  "dashboard_riskClass risk_level =
     (let riskClass = ''secondary'';
          riskClass = (if risk_level = Some ''low'' then ''success'' else riskClass);
          riskClass = (if risk_level = Some ''moderate'' then ''warning'' else riskClass);
          riskClass = (if risk_level = Some ''high'' then ''danger'' else riskClass);
          riskClass = (if risk_level = Some ''critical'' then ''dark'' else riskClass)
      in riskClass)"

definition predictor_riskClass :: "string option \<Rightarrow> string" where
  "predictor_riskClass risk_level =
     (let riskClass = ''secondary'';
          riskClass = (if risk_level = Some ''low'' then ''success'' else riskClass);
          riskClass = (if risk_level = Some ''moderate'' then ''warning'' else riskClass);
          riskClass = (if risk_level = Some ''high'' then ''danger'' else riskClass);
          riskClass = (if risk_level = Some ''critical'' then ''dark'' else riskClass)
      in riskClass)"

definition family_riskClass :: "string option \<Rightarrow> string" where
  "family_riskClass risk_level =
     (let riskClass = ''success'';
          riskClass = (if risk_level = Some ''moderate'' then ''warning'' else riskClass);
          riskClass = (if risk_level = Some ''high'' then ''danger'' else riskClass);
          riskClass = (if risk_level = Some ''critical'' then ''dark'' else riskClass)
      in riskClass)"


section \<open>The symptom timeline: \<^verbatim>\<open>symptom_timeline.js\<close>\<close>

subsection \<open>Timeline payload\<close>

text \<open>
  The payload of \<^verbatim>\<open>/api/users/{id}/timeline\<close> is \<^verbatim>\<open>{labels[], datasets[]}\<close>, each
  dataset \<^verbatim>\<open>{label, symptom_category, data: [{x, y, record_id, notes?}]}\<close>. A field
  that the code tests before use is optional here: \<open>None\<close> stands for a missing,
  \<^verbatim>\<open>undefined\<close> or \<^verbatim>\<open>null\<close> value. An entry of \<^verbatim>\<open>data\<close> may itself be
  \<^verbatim>\<open>null\<close>. The \<^verbatim>\<open>y\<close> of a point is a number when present. The fields \<^verbatim>\<open>x\<close>, \<^verbatim>\<open>y\<close> and
  \<^verbatim>\<open>notes\<close> are \<open>x_val\<close>, \<open>y_val\<close> and \<open>notes_val\<close>.
\<close>

record point =
  x_val :: string
  y_val :: "number option"
  record_id :: "nat option"
  notes_val :: "string option"

record dataset =
  label :: string
  symptom_category :: "string option"
  data :: "point option list option"

datatype datasets_field = DatasetsMissing | DatasetsNotArray | DatasetsArray "dataset list"

record timeline_data =
  labels :: "string list option"
  datasets :: datasets_field

subsection \<open>\<^verbatim>\<open>renderTimeline\<close>\<close>

text \<open>
  The element found under \<^verbatim>\<open>containerId\<close>: none, an element without
  \<^verbatim>\<open>getContext\<close> (the call throws and is caught), or a canvas.
\<close>

datatype container = NoElement | NotCanvas | Canvas

text \<open>What \<^verbatim>\<open>renderTimeline\<close> leaves on the page.\<close>

datatype timeline_view =
    ContainerNotFound
  | CanvasUnavailable
  | InvalidData
  | NoTimelineData
  | Chart "string list" "dataset list"

text \<open>\<^verbatim>\<open>point && point.y > 0\<close>\<close>

definition point_positive :: "point option \<Rightarrow> bool" where
  "point_positive pt =
     (case pt of None \<Rightarrow> False
      | Some p \<Rightarrow> (case y_val p of None \<Rightarrow> False | Some v \<Rightarrow> num_gt v (Fin 0)))"

text \<open>\<^verbatim>\<open>dataset.data && dataset.data.some(point => point && point.y > 0)\<close>\<close>

definition dataset_shown :: "dataset \<Rightarrow> bool" where
  "dataset_shown d =
     (case data d of None \<Rightarrow> False | Some pts \<Rightarrow> list_ex point_positive pts)"

text \<open>
  \<^verbatim>\<open>datasets: Array.isArray(data.datasets) ?
      data.datasets.filter(dataset => ...) : []\<close>
\<close>

definition chartData_datasets :: "datasets_field \<Rightarrow> dataset list" where
  "chartData_datasets f =
     (case f of DatasetsArray ds \<Rightarrow> filter dataset_shown ds | _ \<Rightarrow> [])"

definition renderTimeline :: "container \<Rightarrow> timeline_data option \<Rightarrow> timeline_view" where
  "renderTimeline c dat =
     (case c of
        NoElement \<Rightarrow> ContainerNotFound
      | NotCanvas \<Rightarrow> CanvasUnavailable
      | Canvas \<Rightarrow>
          (case dat of
             None \<Rightarrow> InvalidData
           | Some d \<Rightarrow>
               (case labels d of
                  None \<Rightarrow> InvalidData
                | Some ls \<Rightarrow>
                    if datasets d = DatasetsMissing then InvalidData
                    else if chartData_datasets (datasets d) = [] then NoTimelineData
                    else Chart ls (chartData_datasets (datasets d)))))"

text \<open>The datasets of the chart that is bound, none when no chart is created.\<close>

definition bound_datasets :: "timeline_view \<Rightarrow> dataset list" where
  "bound_datasets v = (case v of Chart ls ds \<Rightarrow> ds | _ \<Rightarrow> [])"

subsection \<open>\<^verbatim>\<open>fetchTimelineData\<close>\<close>

text \<open>
  \<^verbatim>\<open>URLSearchParams.toString()\<close> is the \<^verbatim>\<open>application/x-www-form-urlencoded\<close>
  serializer: a space becomes \<^verbatim>\<open>+\<close>, ASCII letters, digits and \<^verbatim>\<open>*-._\<close> stay, every
  other byte of the UTF-8 encoding becomes \<^verbatim>\<open>%XX\<close>. A string is its UTF-8 bytes here.
\<close>

definition urlencoded_keep :: "char \<Rightarrow> bool" where
  "urlencoded_keep c =
     (let n = (of_char c :: nat)
      in (48 \<le> n \<and> n \<le> 57) \<or> (65 \<le> n \<and> n \<le> 90) \<or> (97 \<le> n \<and> n \<le> 122)
         \<or> c \<in> set ''*-._'')"

definition hex_digit :: "nat \<Rightarrow> char" where
  "hex_digit n = ''0123456789ABCDEF'' ! (n mod 16)"

definition urlencoded_byte :: "char \<Rightarrow> string" where
  "urlencoded_byte c =
     (if c = CHR '' '' then ''+''
      else if urlencoded_keep c then [c]
      else [CHR ''%'', hex_digit ((of_char c :: nat) div 16), hex_digit (of_char c)])"

definition urlencoded :: "string \<Rightarrow> string" where
  "urlencoded s = concat (map urlencoded_byte s)"

fun join_amp :: "string list \<Rightarrow> string" where
  "join_amp [] = []"
| "join_amp [a] = a"
| "join_amp (a # b # rest) = a @ ''&'' @ join_amp (b # rest)"

definition params_toString :: "(string \<times> string) list \<Rightarrow> string" where
  "params_toString ps = join_amp (map (\<lambda>(k, v). urlencoded k @ ''='' @ urlencoded v) ps)"

text \<open>
  The part of the page \<^verbatim>\<open>fetchTimelineData\<close> reads. A filter field is \<open>None\<close> when
  the input element does not exist, else the element's value.
\<close>

record timeline_page =
  userId :: string
  timeline_container :: container
  timelineStartDate :: "string option"
  timelineEndDate :: "string option"

datatype http_method = GET | POST | DELETE

text \<open>\<^verbatim>\<open>if (startDate)\<close>: the value is defined and not the empty string.\<close>

definition provided :: "string option \<Rightarrow> bool" where
  "provided v = (case v of None \<Rightarrow> False | Some s \<Rightarrow> s \<noteq> [])"

definition timeline_params :: "timeline_page \<Rightarrow> (string \<times> string) list" where
  "timeline_params p =
     (if provided (timelineStartDate p) then [(''start_date'', the (timelineStartDate p))] else [])
     @ (if provided (timelineEndDate p) then [(''end_date'', the (timelineEndDate p))] else [])"

definition timeline_url :: "timeline_page \<Rightarrow> string" where
  "timeline_url p =
     (let url = ''/api/users/'' @ userId p @ ''/timeline'';
          params = timeline_params p
      in if params_toString params \<noteq> [] then url @ ''?'' @ params_toString params else url)"

text \<open>
  The request \<^verbatim>\<open>fetchTimelineData\<close> issues: none when the container element is
  missing (the function logs and returns before building the URL).
\<close>

definition fetchTimelineData :: "timeline_page \<Rightarrow> (http_method \<times> string) option" where
  "fetchTimelineData p =
     (if timeline_container p = NoElement then None else Some (GET, timeline_url p))"

text \<open>
  A string the serializer leaves as it is: letters, digits and \<^verbatim>\<open>*-._\<close> only. Every
  ISO date \<^verbatim>\<open>YYYY-MM-DD\<close>, the value of a date input, is one.
\<close>

definition url_safe :: "string \<Rightarrow> bool" where
  "url_safe s = list_all urlencoded_keep s"

section \<open>Family profiles: \<^verbatim>\<open>family_profiles.js\<close>\<close>

text \<open>
  A family member of the \<^verbatim>\<open>family-dashboard\<close> payload. Fields the renderer tests
  for truthiness, compares with \<^verbatim>\<open>===\<close> or interpolates are optional (\<open>None\<close> for
  a missing value); ids, ages, BMI and severities are numbers, the rest strings.
\<close>

record recent_symptom =
  severity :: number
  symptom_name :: string
  date :: "string option"

record risk_summary =
  risk_level :: "string option"
  disease :: "string option"

record health_summary =
  bmi :: "number option"
  bmi_category :: "string option"
  latest_risk_assessment :: "risk_summary option"
  recent_symptoms :: "recent_symptom list option"

record member =
  user_id :: "number option"
  name :: "string option"
  relationship :: "string option"
  age :: "number option"
  gender :: "string option"
  access_level :: "string option"
  health_summary :: "health_summary option"

text \<open>Truthiness of a number: defined, not zero and not NaN.\<close>

definition truthy_num :: "number option \<Rightarrow> bool" where
  "truthy_num v = (case v of None \<Rightarrow> False | Some n \<Rightarrow> n \<noteq> NaN \<and> n \<noteq> Fin 0)"

text \<open>A value inside a template literal: a missing one prints as \<^verbatim>\<open>undefined\<close>.\<close>

definition interp :: "string option \<Rightarrow> string" where
  "interp v = (case v of None \<Rightarrow> ''undefined'' | Some s \<Rightarrow> s)"

text \<open>
  The HTML below is the template literals of \<^verbatim>\<open>renderFamilyMembers\<close> with the white
  space between tags left out. \<open>num_str\<close> is JavaScript's conversion of a number to a
  string, a parameter of the model.
\<close>

definition healthStatus :: "member \<Rightarrow> string" where
  "healthStatus m =
     (case health_summary m of
        None \<Rightarrow> []
      | Some hs \<Rightarrow>
          (case latest_risk_assessment hs of
             None \<Rightarrow> []
           | Some risk \<Rightarrow>
               ''<div class=\"mt-2\"><span class=\"badge bg-'' @ family_riskClass (risk_level risk)
               @ ''\">'' @ interp (risk_level risk) @ '' risk</span>''
               @ ''<small class=\"text-muted ms-1\">'' @ interp (disease risk)
               @ ''</small></div>''))"

definition symptom_item :: "(number \<Rightarrow> string) \<Rightarrow> recent_symptom \<Rightarrow> string" where
  "symptom_item num_str s =
     ''<li><span class=\"badge bg-'' @ family_getSeverityClass (severity s) @ ''\">''
     @ num_str (severity s) @ ''</span>'' @ symptom_name s @ '' ('' @ interp (date s)
     @ '')</li>''"

definition symptomsHtml :: "(number \<Rightarrow> string) \<Rightarrow> member \<Rightarrow> string" where
  "symptomsHtml num_str m =
     (case health_summary m of
        None \<Rightarrow> []
      | Some hs \<Rightarrow>
          (case recent_symptoms hs of
             None \<Rightarrow> []
           | Some syms \<Rightarrow>
               if length syms > 0
               then ''<div class=\"mt-2 small\"><strong>Recent symptoms:</strong>''
                    @ ''<ul class=\"list-unstyled ms-1 mb-0\">''
                    @ concat (map (symptom_item num_str) syms) @ ''</ul></div>''
               else []))"

definition bmi_line :: "(number \<Rightarrow> string) \<Rightarrow> member \<Rightarrow> string" where
  "bmi_line num_str m =
     (case health_summary m of
        None \<Rightarrow> []
      | Some hs \<Rightarrow>
          if truthy_num (bmi hs)
          then ''<div><strong>BMI:</strong> '' @ num_str (the (bmi hs)) @ '' (''
               @ (if provided (bmi_category hs) then the (bmi_category hs) else ''N/A'')
               @ '')</div>''
          else [])"

definition member_card :: "(number \<Rightarrow> string) \<Rightarrow> member \<Rightarrow> string" where
  "member_card num_str m =
     ''<div class=\"card h-100 ''
     @ (if relationship m = Some ''self'' then ''border-primary'' else [])
     @ ''\"><div class=\"card-body\"><div class=\"d-flex justify-content-between\">''
     @ ''<h6 class=\"card-title\">''
     @ (if provided (name m) then the (name m)
        else ''User '' @ (case user_id m of None \<Rightarrow> ''undefined'' | Some n \<Rightarrow> num_str n))
     @ ''</h6>''
     @ (if relationship m \<noteq> Some ''self''
        then ''<span class=\"badge bg-info\">'' @ interp (relationship m) @ ''</span>'' else [])
     @ ''</div><div class=\"mt-2 small\"><div><strong>Age:</strong> ''
     @ (if truthy_num (age m) then num_str (the (age m)) else ''N/A'')
     @ ''</div><div><strong>Gender:</strong> ''
     @ (if provided (gender m) then the (gender m) else ''N/A'')
     @ ''</div>'' @ bmi_line num_str m @ ''</div>''
     @ healthStatus m
     @ (if access_level m = Some ''full'' then symptomsHtml num_str m else [])
     @ (if relationship m \<noteq> Some ''self''
        then ''<div class=\"mt-3\"><small class=\"text-muted\">Access level: ''
             @ interp (access_level m) @ ''</small></div>'' else [])
     @ ''</div></div>''"

text \<open>
  \<^verbatim>\<open>renderFamilyMembers\<close>: nothing is rendered for a missing or empty list; otherwise
  one card for each member with a truthy \<^verbatim>\<open>user_id\<close>, in order.
\<close>

definition renderFamilyMembers :: "(number \<Rightarrow> string) \<Rightarrow> member list option \<Rightarrow> string list" where
  "renderFamilyMembers num_str members =
     (case members of
        None \<Rightarrow> []
      | Some ms \<Rightarrow> map (member_card num_str) (filter (\<lambda>m. truthy_num (user_id m)) ms))"

text \<open>The same member with other recent symptoms in the payload.\<close>

definition with_recent_symptoms :: "recent_symptom list option \<Rightarrow> member \<Rightarrow> member" where
  "with_recent_symptoms rs m =
     m\<lparr>health_summary := map_option (\<lambda>hs. hs\<lparr>recent_symptoms := rs\<rparr>) (health_summary m)\<rparr>"

section \<open>Form submissions and their requests\<close>

text \<open>
  The elements a handler reads are taken to exist on the page. What a handler does
  to the page beyond its form: the toasts raised by
  \<^verbatim>\<open>showNotification(message, type)\<close>, the \<^verbatim>\<open>alert\<close> calls, the requests passed to
  \<^verbatim>\<open>fetch\<close> (method and URL; the JSON body is not modelled), the number of view
  refreshes started after a success (\<^verbatim>\<open>fetchDashboardData\<close>, \<^verbatim>\<open>fetchTimelineData\<close>,
  \<^verbatim>\<open>fetchRiskAssessments\<close>, \<^verbatim>\<open>loadSymptomTimeline\<close>), and the number of
  exceptions and promise rejections no handler received.
\<close>

record effects =
  toasts :: "(string \<times> string) list"
  alerts :: "string list"
  requests :: "(http_method \<times> string) list"
  refreshes :: nat
  unhandled :: nat

definition showNotification :: "string \<Rightarrow> string \<Rightarrow> effects \<Rightarrow> effects" where
  "showNotification message type fx = fx\<lparr>toasts := toasts fx @ [(message, type)]\<rparr>"

definition fetch :: "http_method \<Rightarrow> string \<Rightarrow> effects \<Rightarrow> effects" where
  "fetch method url fx = fx\<lparr>requests := requests fx @ [(method, url)]\<rparr>"

definition refresh :: "effects \<Rightarrow> effects" where
  "refresh fx = fx\<lparr>refreshes := Suc (refreshes fx)\<rparr>"

text \<open>
  How a request ends: the \<^verbatim>\<open>fetch\<close> promise rejects (network failure), or a response
  arrives with its \<^verbatim>\<open>ok\<close> flag and with a body that \<^verbatim>\<open>response.json()\<close> parses
  (\<open>True\<close>) or rejects (\<open>False\<close>).
\<close>

datatype response = NetworkFailure | HttpResponse bool bool

text \<open>
  The chain \<^verbatim>\<open>.then(response => { if (!response.ok) throw ...; return response.json(); })
  .then(result => ...).catch(error => ...)\<close> reaches its second \<^verbatim>\<open>then\<close> exactly for an
  \<^verbatim>\<open>ok\<close> response with a JSON body; every other end of the request reaches \<^verbatim>\<open>catch\<close>.
\<close>

definition request_fails :: "response \<Rightarrow> bool" where
  "request_fails r = (r \<noteq> HttpResponse True True)"

subsection \<open>\<^verbatim>\<open>SymptomTimeline.saveSymptomRecord\<close>\<close>

record symptom_form =
  symptomId :: string
  symptomSeverity :: string
  symptomNotes :: string
  symptomDatetime :: string
  medicationTaken :: string
  doctorVisited :: bool

text \<open>
  \<open>to_number\<close> is JavaScript's conversion of a string to a number (NaN for text that
  is not a numeric literal), applied by \<^verbatim>\<open>severity < 1\<close>, \<^verbatim>\<open>severity > 10\<close> and
  \<^verbatim>\<open>isNaN(metricValue)\<close>; \<open>parse\<close> is the parser of \<^verbatim>\<open>new Date(string)\<close>;
  \<open>defaults\<close> is the form after \<^verbatim>\<open>form.reset()\<close>. All three are parameters of the
  model.

  After the validation, \<^verbatim>\<open>if (datetime) recordData.recorded_at = new
  Date(datetime).toISOString();\<close> throws a RangeError for a date text that does not
  parse: the handler ends there, before \<^verbatim>\<open>fetch\<close>, and nothing catches the exception.
\<close>

definition saveSymptomRecord ::
  "(string \<Rightarrow> number) \<Rightarrow> (string \<Rightarrow> int option) \<Rightarrow> symptom_form \<Rightarrow> string \<Rightarrow> response
     \<Rightarrow> symptom_form \<times> effects \<Rightarrow> symptom_form \<times> effects" where
  "saveSymptomRecord to_number parse defaults uid resp st =
     (case st of (form, fx) \<Rightarrow>
        if symptomId form = [] then
          (form, showNotification ''Please select a symptom'' ''error'' fx)
        else if symptomSeverity form = []
                \<or> num_lt (to_number (symptomSeverity form)) (Fin 1)
                \<or> num_gt (to_number (symptomSeverity form)) (Fin 10) then
          (form, showNotification ''Please enter a severity between 1-10'' ''error'' fx)
        else if symptomDatetime form \<noteq> [] \<and> parse (symptomDatetime form) = None then
          (form, fx\<lparr>unhandled := Suc (unhandled fx)\<rparr>)
        else
          (let fx = fetch POST (''/api/users/'' @ uid @ ''/symptoms'') fx
           in if request_fails resp
              then (form, showNotification ''Error saving symptom record. Please try again.''
                            ''error'' fx)
              else (defaults,
                    refresh (showNotification ''Symptom recorded successfully'' ''success'' fx))))"

subsection \<open>\<^verbatim>\<open>HealthDashboard.addHealthMetric\<close>\<close>

record metric_form =
  metricType :: string
  metricValue :: string
  metricUnit :: string
  metricDate :: string

text \<open>
  Here too \<^verbatim>\<open>if (metricDate) metricData.recorded_at = new
  Date(metricDate).toISOString();\<close> comes between the validation and \<^verbatim>\<open>fetch\<close>.
\<close>

definition addHealthMetric ::
  "(string \<Rightarrow> number) \<Rightarrow> (string \<Rightarrow> int option) \<Rightarrow> metric_form \<Rightarrow> string \<Rightarrow> response
     \<Rightarrow> metric_form \<times> effects \<Rightarrow> metric_form \<times> effects" where
  "addHealthMetric to_number parse defaults uid resp st =
     (case st of (form, fx) \<Rightarrow>
        if metricType form = [] then
          (form, showNotification ''Please select a metric type'' ''error'' fx)
        else if metricValue form = [] \<or> to_number (metricValue form) = NaN then
          (form, showNotification ''Please enter a valid metric value'' ''error'' fx)
        else if metricDate form \<noteq> [] \<and> parse (metricDate form) = None then
          (form, fx\<lparr>unhandled := Suc (unhandled fx)\<rparr>)
        else
          (let fx = fetch POST (''/api/users/'' @ uid @ ''/health-metrics'') fx
           in if request_fails resp
              then (form, showNotification ''Error adding health metric. Please try again.''
                            ''error'' fx)
              else (defaults,
                    refresh (showNotification ''Health metric added successfully'' ''success'' fx))))"

subsection \<open>\<^verbatim>\<open>HealthRiskPredictor.predictRisks\<close>\<close>

record button =
  innerHTML :: string
  disabled :: bool

definition analyzing :: string where
  "analyzing = ''<span class=\"spinner-border spinner-border-sm\" role=\"status\" aria-hidden=\"true\"></span> Analyzing...''"

text \<open>The page right after the click, while the request is in flight.\<close>

definition predictRisks_click :: "string \<Rightarrow> button \<times> effects \<Rightarrow> button \<times> effects" where
  "predictRisks_click uid st =
     (case st of (btn, fx) \<Rightarrow>
        (btn\<lparr>innerHTML := analyzing, disabled := True\<rparr>,
         fetch POST (''/api/users/'' @ uid @ ''/predict-health-risks'') fx))"

text \<open>The page once the request has ended; \<open>originalText\<close> was read before the click.\<close>

definition predictRisks_settle ::
  "string \<Rightarrow> response \<Rightarrow> button \<times> effects \<Rightarrow> button \<times> effects" where
  "predictRisks_settle originalText resp st =
     (case st of (btn, fx) \<Rightarrow>
        if request_fails resp
        then (btn\<lparr>innerHTML := originalText, disabled := False\<rparr>,
              showNotification ''Error performing risk assessment. Please try again.'' ''error'' fx)
        else (btn\<lparr>innerHTML := originalText, disabled := False\<rparr>,
              refresh (showNotification ''Health risk assessment completed successfully''
                         ''success'' fx)))"

definition predictRisks :: "string \<Rightarrow> response \<Rightarrow> button \<times> effects \<Rightarrow> button \<times> effects" where
  "predictRisks uid resp st =
     predictRisks_settle (innerHTML (fst st)) resp (predictRisks_click uid st)"

subsection \<open>The click handler at the end of \<^verbatim>\<open>symptom_timeline.js\<close>\<close>

text \<open>
  \<^verbatim>\<open>document.querySelector('#addSymptomBtn').onclick = async function() {
      ...
      await fetch('/api/user/symptom', {method: 'POST', ...});
      loadSymptomTimeline();
  };\<close>
  There is no \<^verbatim>\<open>try\<close> and no test of \<^verbatim>\<open>response.ok\<close>: a rejected \<^verbatim>\<open>fetch\<close> rejects
  the handler's promise, any response continues with \<^verbatim>\<open>loadSymptomTimeline\<close>.
\<close>

definition addSymptomBtn_onclick :: "response \<Rightarrow> effects \<Rightarrow> effects" where
  "addSymptomBtn_onclick resp fx =
     (let fx = fetch POST ''/api/user/symptom'' fx
      in case resp of
           NetworkFailure \<Rightarrow> fx\<lparr>unhandled := Suc (unhandled fx)\<rparr>
         | HttpResponse ok body \<Rightarrow> refresh fx)"

text \<open>
  \<^verbatim>\<open>handleAddSymptom\<close> in \<^verbatim>\<open>health_dashboard.js\<close> posts to the same resource inside
  \<^verbatim>\<open>try\<close>/\<^verbatim>\<open>catch\<close>: it throws on a response that is not \<^verbatim>\<open>ok\<close> and the \<^verbatim>\<open>catch\<close>
  raises an alert. The body of the response is not read.
\<close>

definition handleAddSymptom :: "response \<Rightarrow> effects \<Rightarrow> effects" where
  "handleAddSymptom resp fx =
     (let fx = fetch POST ''/api/user/symptom'' fx
      in case resp of
           HttpResponse True body \<Rightarrow> refresh fx
         | _ \<Rightarrow> fx\<lparr>alerts := alerts fx @ [''Could not add symptom. Please try again.'']\<rparr>)"

section \<open>Grouping by date and sorting\<close>

subsection \<open>Objects used as dictionaries\<close>

text \<open>
  The renderers group into a plain object, \<^verbatim>\<open>const groups = {}\<close>, filled by
  \<^verbatim>\<open>if (!groups[key]) groups[key] = []; groups[key].push(record);\<close>
  The object is modelled by its own properties in creation order. A key that names a
  property of \<^verbatim>\<open>Object.prototype\<close> reads as truthy before any own property
  exists, so no array is created and \<^verbatim>\<open>push\<close> is not a function: a TypeError.
\<close>

datatype js_error = TypeError

definition object_prototype_names :: "string list" where
  "object_prototype_names =
     [''constructor'', ''__defineGetter__'', ''__defineSetter__'', ''hasOwnProperty'',
      ''__lookupGetter__'', ''__lookupSetter__'', ''isPrototypeOf'', ''propertyIsEnumerable'',
      ''toString'', ''valueOf'', ''__proto__'', ''toLocaleString'']"

fun push_group :: "string \<Rightarrow> 'r \<Rightarrow> (string \<times> 'r list) list \<Rightarrow> (string \<times> 'r list) list" where
  "push_group k r [] = [(k, [r])]"
| "push_group k r ((k', rs) # obj) =
     (if k = k' then (k', rs @ [r]) # obj else (k', rs) # push_group k r obj)"

definition group_entry ::
  "string \<Rightarrow> 'r \<Rightarrow> (string \<times> 'r list) list \<Rightarrow> js_error + (string \<times> 'r list) list" where
  "group_entry k r obj =
     (if k \<in> set object_prototype_names then Inl TypeError else Inr (push_group k r obj))"

text \<open>\<^verbatim>\<open>groups[key]\<close> for a key of the object.\<close>

definition lookup :: "(string \<times> 'r list) list \<Rightarrow> string \<Rightarrow> 'r list" where
  "lookup obj k = (case map_of obj k of None \<Rightarrow> [] | Some rs \<Rightarrow> rs)"

text \<open>
  \<^verbatim>\<open>Object.keys\<close> and \<^verbatim>\<open>Object.entries\<close> list the keys that are array indices
  (canonical decimal numerals below \<open>2\<^sup>3\<^sup>2 - 1\<close>) first, in ascending numeric
  order, then the other keys in creation order.
\<close>

definition is_digit :: "char \<Rightarrow> bool" where
  "is_digit c = (48 \<le> (of_char c :: nat) \<and> (of_char c :: nat) \<le> 57)"

definition decimal :: "string \<Rightarrow> nat" where
  "decimal s = foldl (\<lambda>n c. 10 * n + ((of_char c :: nat) - 48)) 0 s"

definition array_index :: "string \<Rightarrow> nat option" where
  "array_index s =
     (if s \<noteq> [] \<and> list_all is_digit s \<and> (s = ''0'' \<or> hd s \<noteq> CHR ''0'')
         \<and> decimal s < 2 ^ 32 - 1
      then Some (decimal s) else None)"

definition object_keys :: "(string \<times> 'v) list \<Rightarrow> string list" where
  "object_keys obj =
     sort_key (\<lambda>k. the (array_index k)) (filter (\<lambda>k. array_index k \<noteq> None) (map fst obj))
     @ filter (\<lambda>k. array_index k = None) (map fst obj)"

subsection \<open>\<^verbatim>\<open>Array.prototype.sort\<close> with a comparator\<close>

text \<open>
  The sort is stable, and a comparator result that is NaN counts as zero. It is
  modelled as the stable insertion sort that moves \<open>a\<close> behind \<open>b\<close> exactly when
  \<open>cmp a b > 0\<close>. For a consistent comparator every engine returns this list; when
  the comparator is not consistent (a NaN from an invalid date can make it so)
  ECMAScript leaves the order to the engine, and this is one such order.
\<close>

fun insert_sorted :: "('a \<Rightarrow> 'a \<Rightarrow> number) \<Rightarrow> 'a \<Rightarrow> 'a list \<Rightarrow> 'a list" where
  "insert_sorted cmp a [] = [a]"
| "insert_sorted cmp a (b # bs) =
     (if num_gt (cmp a b) (Fin 0) then b # insert_sorted cmp a bs else a # b # bs)"

definition array_sort :: "('a \<Rightarrow> 'a \<Rightarrow> number) \<Rightarrow> 'a list \<Rightarrow> 'a list" where
  "array_sort cmp xs = foldr (insert_sorted cmp) xs []"

text \<open>
  A \<^verbatim>\<open>Date\<close> is its time value in milliseconds, \<open>None\<close> for an invalid date. The
  difference of two dates is the difference of the time values, NaN when one is invalid.
\<close>

definition date_minus :: "int option \<Rightarrow> int option \<Rightarrow> number" where
  "date_minus a b =
     (case a of None \<Rightarrow> NaN
      | Some ta \<Rightarrow> (case b of None \<Rightarrow> NaN | Some tb \<Rightarrow> Fin (of_int (ta - tb))))"

text \<open>
  \<^verbatim>\<open>Object.keys(groups).sort((a, b) => new Date(b) - new Date(a))\<close>, with the parser
  of \<^verbatim>\<open>new Date(string)\<close> as the parameter \<open>parse\<close>.
\<close>

definition sortedDates :: "(string \<Rightarrow> int option) \<Rightarrow> (string \<times> 'v) list \<Rightarrow> string list" where
  "sortedDates parse obj =
     array_sort (\<lambda>a b. date_minus (parse b) (parse a)) (object_keys obj)"

subsection \<open>\<^verbatim>\<open>HealthDashboard.renderSymptomsSummary\<close>\<close>

text \<open>
  The \<^verbatim>\<open>symptoms\<close> of the dashboard payload have the shape of the family card's
  recent symptoms, \<^verbatim>\<open>{date, symptom_name, severity}\<close>. The grouping key is
  \<^verbatim>\<open>symptom.date\<close> as a property key: the string, or \<^verbatim>\<open>undefined\<close> for a record
  without date. No \<^verbatim>\<open>try\<close> surrounds the loop, so a TypeError ends the rendering.
\<close>

fun symptomsByDate ::
  "recent_symptom list \<Rightarrow> (string \<times> recent_symptom list) list
     \<Rightarrow> js_error + (string \<times> recent_symptom list) list" where
  "symptomsByDate [] obj = Inr obj"
| "symptomsByDate (symptom # rest) obj =
     (case group_entry (interp (date symptom)) symptom obj of
        Inl e \<Rightarrow> Inl e
      | Inr obj' \<Rightarrow> symptomsByDate rest obj')"

text \<open>The date groups in the order of \<^verbatim>\<open>sortedDates\<close>.\<close>

definition symptom_date_groups ::
  "(string \<Rightarrow> int option) \<Rightarrow> recent_symptom list
     \<Rightarrow> js_error + (string \<times> recent_symptom list) list" where
  "symptom_date_groups parse symptoms =
     (case symptomsByDate symptoms [] of
        Inl e \<Rightarrow> Inl e
      | Inr obj \<Rightarrow> Inr (map (\<lambda>d. (d, lookup obj d)) (sortedDates parse obj)))"

text \<open>
  What is rendered: nothing for a missing or empty list, else the groups of
  \<^verbatim>\<open>sortedDates.slice(0, 7)\<close>.
\<close>

definition renderSymptomsSummary ::
  "(string \<Rightarrow> int option) \<Rightarrow> recent_symptom list option
     \<Rightarrow> js_error + (string \<times> recent_symptom list) list" where
  "renderSymptomsSummary parse symptoms =
     (case symptoms of
        None \<Rightarrow> Inr []
      | Some ss \<Rightarrow>
          if ss = [] then Inr []
          else (case symptom_date_groups parse ss of
                  Inl e \<Rightarrow> Inl e
                | Inr groups \<Rightarrow> Inr (take 7 groups)))"

subsection \<open>\<^verbatim>\<open>HealthRiskPredictor.renderRiskAssessments\<close>\<close>

record assessment =
  disease_name :: string
  assessment_date :: "string option"

text \<open>
  \<^verbatim>\<open>new Date(assessment.assessment_date).toLocaleDateString()\<close>: an invalid date
  formats as \<^verbatim>\<open>Invalid Date\<close> and nothing is thrown. The locale's formatting of a
  valid time value is the parameter \<open>fmt\<close>.
\<close>

definition toLocaleDateString :: "(int \<Rightarrow> string) \<Rightarrow> int option \<Rightarrow> string" where
  "toLocaleDateString fmt d = (case d of None \<Rightarrow> ''Invalid Date'' | Some t \<Rightarrow> fmt t)"

text \<open>The grouping key of an assessment that has an \<^verbatim>\<open>assessment_date\<close>.\<close>

definition assessment_day :: "(string \<Rightarrow> int option) \<Rightarrow> (int \<Rightarrow> string) \<Rightarrow> assessment \<Rightarrow> string" where
  "assessment_day parse fmt a =
     toLocaleDateString fmt (case assessment_date a of None \<Rightarrow> None | Some d \<Rightarrow> parse d)"

text \<open>
  The grouping loop, with the assessments it logs: a record without
  \<^verbatim>\<open>assessment_date\<close> is warned about and skipped; an exception inside \<^verbatim>\<open>try\<close> is
  caught and logged as an error.
\<close>

record 'r grouping =
  groups :: "(string \<times> 'r list) list"
  warned :: "'r list"
  failed :: "'r list"

fun groupedAssessments ::
  "(string \<Rightarrow> int option) \<Rightarrow> (int \<Rightarrow> string) \<Rightarrow> assessment list
     \<Rightarrow> assessment grouping \<Rightarrow> assessment grouping" where
  "groupedAssessments parse fmt [] g = g"
| "groupedAssessments parse fmt (a # rest) g =
     groupedAssessments parse fmt rest
       (if \<not> provided (assessment_date a) then g\<lparr>warned := warned g @ [a]\<rparr>
        else (case group_entry (assessment_day parse fmt a) a (groups g) of
                Inl e \<Rightarrow> g\<lparr>failed := failed g @ [a]\<rparr>
              | Inr obj \<Rightarrow> g\<lparr>groups := obj\<rparr>))"

definition assessment_date_groups ::
  "(string \<Rightarrow> int option) \<Rightarrow> (int \<Rightarrow> string) \<Rightarrow> assessment list
     \<Rightarrow> (string \<times> assessment list) list" where
  "assessment_date_groups parse fmt assessments =
     (let obj = groups (groupedAssessments parse fmt assessments
                          \<lparr>groups = [], warned = [], failed = []\<rparr>)
      in map (\<lambda>d. (d, lookup obj d)) (sortedDates parse obj))"

section \<open>Chart series\<close>

subsection \<open>\<^verbatim>\<open>renderSymptomChart\<close> in \<^verbatim>\<open>health_dashboard.js\<close>\<close>

text \<open>
  The symptoms of \<^verbatim>\<open>/api/user/health\<close> are \<^verbatim>\<open>{symptom, severity, notes, datetime}\<close>.
  Each becomes the point \<^verbatim>\<open>{x: new Date(s.datetime), y: parseInt(s.severity)}\<close> in the
  group of its symptom name; \<open>parseInt\<close> is a parameter of the model, like the date
  parser.
\<close>

record logged_symptom =
  symptom :: "string option"
  severity_input :: string
  datetime :: "string option"

record chart_point =
  x_time :: "int option"
  y_num :: number

definition symptom_point ::
  "(string \<Rightarrow> int option) \<Rightarrow> (string \<Rightarrow> number) \<Rightarrow> logged_symptom \<Rightarrow> chart_point" where
  "symptom_point parse parseInt s =
     \<lparr>x_time = (case datetime s of None \<Rightarrow> None | Some d \<Rightarrow> parse d),
      y_num = parseInt (severity_input s)\<rparr>"

fun grouped ::
  "(string \<Rightarrow> int option) \<Rightarrow> (string \<Rightarrow> number) \<Rightarrow> logged_symptom list
     \<Rightarrow> (string \<times> chart_point list) list \<Rightarrow> js_error + (string \<times> chart_point list) list" where
  "grouped parse parseInt [] obj = Inr obj"
| "grouped parse parseInt (s # rest) obj =
     (case group_entry (interp (symptom s)) (symptom_point parse parseInt s) obj of
        Inl e \<Rightarrow> Inl e
      | Inr obj' \<Rightarrow> grouped parse parseInt rest obj')"

definition colorList :: "string list" where
  "colorList = [''#5E936C'', ''#FF6B6B'', ''#4ECDC4'', ''#FFD166'', ''#6C63FF'', ''#FFB6B9'',
                ''#A8E6CF'', ''#FF8C42'']"

record chart_series =
  series_label :: string
  series_data :: "chart_point list"
  borderColor :: string

text \<open>
  \<^verbatim>\<open>Object.entries(grouped).map(([symptom, points], i) => ({label: symptom,
      data: points.sort((a, b) => a.x - b.x),
      borderColor: colorList[i % colorList.length], ...}))\<close>
\<close>

definition symptom_chart_datasets ::
  "(string \<times> chart_point list) list \<Rightarrow> chart_series list" where
  "symptom_chart_datasets obj =
     map (\<lambda>(i, k). \<lparr>series_label = k,
                     series_data = array_sort (\<lambda>a b. date_minus (x_time a) (x_time b)) (lookup obj k),
                     borderColor = colorList ! (i mod length colorList)\<rparr>)
         (enumerate 0 (object_keys obj))"

text \<open>
  The datasets of the chart; \<open>None\<close> when the canvas is missing and the function
  returns at once.
\<close>

definition renderSymptomChart ::
  "bool \<Rightarrow> (string \<Rightarrow> int option) \<Rightarrow> (string \<Rightarrow> number) \<Rightarrow> logged_symptom list
     \<Rightarrow> js_error + chart_series list option" where
  "renderSymptomChart canvas parse parseInt symptoms =
     (if \<not> canvas then Inr None
      else (case grouped parse parseInt symptoms [] of
              Inl e \<Rightarrow> Inl e
            | Inr obj \<Rightarrow> Inr (Some (symptom_chart_datasets obj))))"

subsection \<open>\<^verbatim>\<open>HealthDashboard.renderMetricsCharts\<close>\<close>

text \<open>
  A metric of the dashboard payload is \<^verbatim>\<open>{type, unit, data: [{date, value}]}\<close>. Its
  chart takes \<^verbatim>\<open>labels: metric.data.map(item => item.date)\<close> and
  \<^verbatim>\<open>data: metric.data.map(item => item.value)\<close>; the label text and the colours of the
  dataset are not modelled.
\<close>

record metric_item =
  item_date :: string
  item_value :: number

record metric =
  metric_type :: string
  metric_unit :: "string option"
  metric_data :: "metric_item list"

record metric_chart =
  chart_labels :: "string list"
  chart_values :: "number list"

definition metric_chartData :: "metric \<Rightarrow> metric_chart" where
  "metric_chartData m =
     \<lparr>chart_labels = map item_date (metric_data m),
      chart_values = map item_value (metric_data m)\<rparr>"

text \<open>One chart for each metric, none for a missing or empty list.\<close>

definition renderMetricsCharts :: "metric list option \<Rightarrow> metric_chart list" where
  "renderMetricsCharts metrics =
     (case metrics of None \<Rightarrow> [] | Some ms \<Rightarrow> map metric_chartData ms)"

section \<open>Notions used in the statements\<close>

text \<open>The object after grouping the records \<open>rs\<close> one by one, storing \<open>val r\<close> under \<open>key r\<close>.\<close>

definition pushes ::
  "('r \<Rightarrow> string) \<Rightarrow> ('r \<Rightarrow> 'v) \<Rightarrow> 'r list \<Rightarrow> (string \<times> 'v list) list \<Rightarrow> (string \<times> 'v list) list" where
  "pushes key val rs obj = foldl (\<lambda>acc r. push_group (key r) (val r) acc) obj rs"


text \<open>
  Time values ECMAScript gives to the date strings of the examples: the ISO forms are
  UTC, the \<^verbatim>\<open>en-US\<close> forms are read in the UTC time zone; the other strings are
  invalid dates.
\<close>

definition example_dates :: "string \<Rightarrow> int option" where
  "example_dates = map_of
     [(''2024-01-01'', 1704067200000), (''2024-01-01T00:00:00Z'', 1704067200000),
      (''2024-01-02'', 1704153600000), (''2024-01-02T08:30:00Z'', 1704184200000),
      (''1/1/2024'', 1704067200000), (''1/2/2024'', 1704153600000)]"

text \<open>The \<^verbatim>\<open>en-US\<close> date of a time value in the UTC time zone, for the first days of 2024.\<close>

definition example_en_US :: "int \<Rightarrow> string" where
  "example_en_US t =
     (if t div 86400000 = 19723 then ''1/1/2024''
      else if t div 86400000 = 19724 then ''1/2/2024''
      else ''1/3/2024'')"


text \<open>
  A day-first locale (\<^verbatim>\<open>en-GB\<close>) in the UTC time zone: \<^verbatim>\<open>toLocaleDateString\<close>
  writes 2 January 2024 as \<^verbatim>\<open>02/01/2024\<close> and 1 February 2024 as \<^verbatim>\<open>01/02/2024\<close>,
  and \<^verbatim>\<open>new Date\<close> reads such a text month first: \<^verbatim>\<open>02/01/2024\<close> as 1 February and
  \<^verbatim>\<open>01/02/2024\<close> as 2 January.
\<close>

definition example_day_first_dates :: "string \<Rightarrow> int option" where
  "example_day_first_dates = map_of
     [(''2024-01-02'', 1704153600000), (''2024-02-01'', 1706745600000),
      (''02/01/2024'', 1706745600000), (''01/02/2024'', 1704153600000)]"

definition example_en_GB :: "int \<Rightarrow> string" where
  "example_en_GB t =
     (if t div 86400000 = 19724 then ''02/01/2024''
      else if t div 86400000 = 19754 then ''01/02/2024''
      else ''03/01/2024'')"

text \<open>
  The numbers ECMAScript gives to the form texts of the examples: a numeric literal
  is its value, a text of white space only is 0, any other text is NaN.
\<close>

definition example_to_number :: "string \<Rightarrow> number" where
  "example_to_number s =
     (case map_of [(''5'', Fin 5), (''11'', Fin 11), ('' '', Fin 0)] s of
        None \<Rightarrow> NaN
      | Some n \<Rightarrow> n)"

section \<open>Properties\<close>

text \<open>
  C10. The three \<^verbatim>\<open>getSeverityClass\<close> functions agree on every number, NaN and the
  infinities included, and each returns \<open>success\<close> at or below 3, \<open>warning\<close> above 3
  and at or below 6, and \<open>danger\<close> otherwise. They are total functions of the number.
\<close>

theorem getSeverityClass_equivalent:
  "dashboard_getSeverityClass s = spec_severity_class s
   \<and> timeline_getSeverityClass s = spec_severity_class s
   \<and> family_getSeverityClass s = spec_severity_class s"
  by (cases "s = NaN")
     (auto simp: dashboard_getSeverityClass_def timeline_getSeverityClass_def
        family_getSeverityClass_def spec_severity_class_def num_le_def)

text \<open>
  In the dashboard and in the risk predictor the four known levels map to
  \<open>dark\<close>, \<open>danger\<close>, \<open>warning\<close> and \<open>success\<close>, and every other value to
  \<open>secondary\<close>. The family card agrees on the four known levels.
\<close>

lemma riskClass_dashboard_predictor:
  "dashboard_riskClass l =
     (if l = Some ''critical'' then ''dark'' else if l = Some ''high'' then ''danger''
      else if l = Some ''moderate'' then ''warning'' else if l = Some ''low'' then ''success''
      else ''secondary'')"
  "predictor_riskClass l = dashboard_riskClass l"
  by (simp_all add: dashboard_riskClass_def predictor_riskClass_def)

lemma riskClass_family_known:
  "family_riskClass (Some ''critical'') = ''dark''"
  "family_riskClass (Some ''high'') = ''danger''"
  "family_riskClass (Some ''moderate'') = ''warning''"
  "family_riskClass (Some ''low'') = ''success''"
  by (simp_all add: family_riskClass_def)

text \<open>
  C3. For the risk level \<open>unknown\<close> the dashboard and the risk predictor fall back to
  \<open>secondary\<close>, while the family profile card gives \<open>success\<close>.
\<close>

theorem family_riskClass_unknown:
  "family_riskClass (Some ''unknown'') = ''success''
   \<and> dashboard_riskClass (Some ''unknown'') = ''secondary''
   \<and> predictor_riskClass (Some ''unknown'') = ''secondary''"
  by (simp add: family_riskClass_def dashboard_riskClass_def predictor_riskClass_def)

lemma bound_datasets_shown:
  "d \<in> set (bound_datasets (renderTimeline c dat)) \<Longrightarrow> dataset_shown d"
  by (auto simp: renderTimeline_def bound_datasets_def chartData_datasets_def
      split: container.splits option.splits datasets_field.splits if_splits)

lemma not_positive_not_shown:
  assumes "\<forall>pts. data d = Some pts \<longrightarrow>
             (\<forall>pt \<in> set pts. pt = None \<or> y_val (the pt) = None
                              \<or> num_le (the (y_val (the pt))) (Fin 0))"
  shows "\<not> dataset_shown d"
proof (cases "data d")
  case None
  then show ?thesis by (simp add: dataset_shown_def)
next
  case (Some pts)
  have "\<not> point_positive pt" if "pt \<in> set pts" for pt
    using assms Some that
    by (auto simp: point_positive_def num_le_def num_gt_def split: option.splits)
  then show ?thesis using Some by (auto simp: dataset_shown_def list_ex_iff)
qed

text \<open>
  C1. A dataset all of whose points are missing, lack \<open>y\<close> or have \<open>y \<le> 0\<close> is never
  among the bound chart datasets, whatever the page and the payload. When
  \<^verbatim>\<open>renderTimeline\<close> runs on a canvas with labels and a dataset array, the bound
  datasets are the input datasets that have a point with \<open>y > 0\<close>, in input order and
  unchanged (zero and negative points included), so each such dataset is bound.
\<close>

theorem renderTimeline_binds_positive_datasets:
  "(\<forall>d. (\<forall>pts. data d = Some pts \<longrightarrow>
           (\<forall>pt \<in> set pts. pt = None \<or> y_val (the pt) = None
                            \<or> num_le (the (y_val (the pt))) (Fin 0)))
        \<longrightarrow> d \<notin> set (bound_datasets (renderTimeline c dat)))
   \<and> bound_datasets (renderTimeline Canvas (Some \<lparr>labels = Some ls, datasets = DatasetsArray ds\<rparr>))
       = filter dataset_shown ds
   \<and> (\<forall>d \<in> set ds.
        (\<exists>pts p q. data d = Some pts \<and> Some p \<in> set pts \<and> y_val p = Some q \<and> num_gt q (Fin 0))
        \<longrightarrow> d \<in> set (bound_datasets
               (renderTimeline Canvas (Some \<lparr>labels = Some ls, datasets = DatasetsArray ds\<rparr>))))"
proof -
  define v where
    "v = renderTimeline Canvas (Some \<lparr>labels = Some ls, datasets = DatasetsArray ds\<rparr>)"
  have excl: "d \<notin> set (bound_datasets (renderTimeline c dat))"
    if "\<forall>pts. data d = Some pts \<longrightarrow>
              (\<forall>pt \<in> set pts. pt = None \<or> y_val (the pt) = None
                               \<or> num_le (the (y_val (the pt))) (Fin 0))" for d
    using not_positive_not_shown [OF that] bound_datasets_shown by blast
  have eq: "bound_datasets v = filter dataset_shown ds"
    by (simp add: v_def renderTimeline_def bound_datasets_def chartData_datasets_def)
  have incl: "d \<in> set (bound_datasets v)"
    if d: "d \<in> set ds"
      and ex: "\<exists>pts p q. data d = Some pts \<and> Some p \<in> set pts \<and> y_val p = Some q
                 \<and> num_gt q (Fin 0)" for d
  proof -
    from ex obtain pts p q where
      "data d = Some pts" "Some p \<in> set pts" "y_val p = Some q" "num_gt q (Fin 0)"
      by blast
    then have "dataset_shown d"
      by (auto simp: dataset_shown_def list_ex_iff point_positive_def intro!: bexI[of _ "Some p"])
    then show ?thesis using d by (simp add: eq)
  qed
  show ?thesis
    unfolding v_def [symmetric] using eq excl incl by blast
qed

text \<open>
  A timeline with an all-zero series, a series without data and a series with one
  positive point among zero and negative ones: only the last is bound, whole.
\<close>

theorem renderTimeline_binds_positive_datasets_witness:
  "bound_datasets (renderTimeline Canvas (Some \<lparr>labels = Some [''d1'', ''d2''], datasets = DatasetsArray
      [\<lparr>label = ''Headache'', symptom_category = None,
         data = Some [Some \<lparr>x_val = ''d1'', y_val = Some (Fin 0), record_id = None, notes_val = None\<rparr>, None]\<rparr>,
       \<lparr>label = ''Nausea'', symptom_category = None, data = None\<rparr>,
       \<lparr>label = ''Fever'', symptom_category = Some ''General'',
         data = Some [Some \<lparr>x_val = ''d1'', y_val = Some (Fin 0), record_id = None, notes_val = None\<rparr>,
                      Some \<lparr>x_val = ''d2'', y_val = Some (Fin 4), record_id = Some 7, notes_val = None\<rparr>]\<rparr>]\<rparr>))
   = [\<lparr>label = ''Fever'', symptom_category = Some ''General'',
         data = Some [Some \<lparr>x_val = ''d1'', y_val = Some (Fin 0), record_id = None, notes_val = None\<rparr>,
                      Some \<lparr>x_val = ''d2'', y_val = Some (Fin 4), record_id = Some 7, notes_val = None\<rparr>]\<rparr>]"
  using renderTimeline_binds_positive_datasets
    [of Canvas None "[''d1'', ''d2'']"
        "[\<lparr>label = ''Headache'', symptom_category = None,
         data = Some [Some \<lparr>x_val = ''d1'', y_val = Some (Fin 0), record_id = None, notes_val = None\<rparr>, None]\<rparr>,
       \<lparr>label = ''Nausea'', symptom_category = None, data = None\<rparr>,
       \<lparr>label = ''Fever'', symptom_category = Some ''General'',
         data = Some [Some \<lparr>x_val = ''d1'', y_val = Some (Fin 0), record_id = None, notes_val = None\<rparr>,
                      Some \<lparr>x_val = ''d2'', y_val = Some (Fin 4), record_id = Some 7, notes_val = None\<rparr>]\<rparr>]"]
  by (simp add: dataset_shown_def point_positive_def num_gt_def)


lemma urlencoded_byte_keep: "urlencoded_keep c \<Longrightarrow> urlencoded_byte c = [c]"
  by (auto simp: urlencoded_byte_def urlencoded_keep_def)

lemma urlencoded_safe: "url_safe s \<Longrightarrow> urlencoded s = s"
  by (induction s) (simp_all add: url_safe_def urlencoded_def urlencoded_byte_keep)

lemma urlencoded_start_date: "urlencoded ''start_date'' = ''start_date''"
  by (rule urlencoded_safe) (simp add: url_safe_def urlencoded_keep_def)

lemma urlencoded_end_date: "urlencoded ''end_date'' = ''end_date''"
  by (rule urlencoded_safe) (simp add: url_safe_def urlencoded_keep_def)

lemma timeline_url_cases:
  "timeline_url p = ''/api/users/'' @ userId p @ ''/timeline'' @
       (if provided (timelineStartDate p) \<and> provided (timelineEndDate p)
        then ''?start_date='' @ urlencoded (the (timelineStartDate p))
             @ ''&end_date='' @ urlencoded (the (timelineEndDate p))
        else if provided (timelineStartDate p)
        then ''?start_date='' @ urlencoded (the (timelineStartDate p))
        else if provided (timelineEndDate p)
        then ''?end_date='' @ urlencoded (the (timelineEndDate p))
        else [])"
  by (simp add: timeline_url_def timeline_params_def params_toString_def Let_def
        urlencoded_start_date urlencoded_end_date)

text \<open>
  C9. Every request \<^verbatim>\<open>fetchTimelineData\<close> issues is one GET to
  \<^verbatim>\<open>/api/users/{id}/timeline\<close> whose query string holds \<^verbatim>\<open>start_date\<close> and
  \<^verbatim>\<open>end_date\<close> exactly for the bounds that are provided (non-empty), in this order,
  each with the provided value, and no query string when neither is provided. It is
  issued whenever the timeline container element exists (otherwise the function logs
  and returns). This holds for every pair of date values, ordered or not.
\<close>

theorem fetchTimelineData_query:
  assumes "\<forall>s. timelineStartDate p = Some s \<longrightarrow> url_safe s"
    and "\<forall>s. timelineEndDate p = Some s \<longrightarrow> url_safe s"
  shows "fetchTimelineData p =
     (if timeline_container p = NoElement then None
      else Some (GET, ''/api/users/'' @ userId p @ ''/timeline'' @
       (if provided (timelineStartDate p) \<and> provided (timelineEndDate p)
        then ''?start_date='' @ the (timelineStartDate p)
             @ ''&end_date='' @ the (timelineEndDate p)
        else if provided (timelineStartDate p)
        then ''?start_date='' @ the (timelineStartDate p)
        else if provided (timelineEndDate p)
        then ''?end_date='' @ the (timelineEndDate p)
        else [])))"
proof -
  have s: "urlencoded (the (timelineStartDate p)) = the (timelineStartDate p)"
    if "provided (timelineStartDate p)"
    using that assms(1) by (auto simp: provided_def urlencoded_safe split: option.splits)
  have e: "urlencoded (the (timelineEndDate p)) = the (timelineEndDate p)"
    if "provided (timelineEndDate p)"
    using that assms(2) by (auto simp: provided_def urlencoded_safe split: option.splits)
  show ?thesis
    using s e by (simp add: fetchTimelineData_def timeline_url_cases)
qed

theorem fetchTimelineData_query_witness:
  "fetchTimelineData \<lparr>userId = ''42'', timeline_container = Canvas,
       timelineStartDate = Some ''2024-01-01'', timelineEndDate = Some ''2024-01-31''\<rparr>
     = Some (GET, ''/api/users/42/timeline?start_date=2024-01-01&end_date=2024-01-31'')
   \<and> fetchTimelineData \<lparr>userId = ''42'', timeline_container = Canvas,
       timelineStartDate = Some [], timelineEndDate = Some ''2024-01-31''\<rparr>
     = Some (GET, ''/api/users/42/timeline?end_date=2024-01-31'')
   \<and> fetchTimelineData \<lparr>userId = ''42'', timeline_container = Canvas,
       timelineStartDate = Some [], timelineEndDate = None\<rparr>
     = Some (GET, ''/api/users/42/timeline'')"
  using
    fetchTimelineData_query [of "\<lparr>userId = ''42'', timeline_container = Canvas,
       timelineStartDate = Some ''2024-01-01'', timelineEndDate = Some ''2024-01-31''\<rparr>"]
    fetchTimelineData_query [of "\<lparr>userId = ''42'', timeline_container = Canvas,
       timelineStartDate = Some [], timelineEndDate = Some ''2024-01-31''\<rparr>"]
    fetchTimelineData_query [of "\<lparr>userId = ''42'', timeline_container = Canvas,
       timelineStartDate = Some [], timelineEndDate = None\<rparr>"]
  by (simp add: url_safe_def urlencoded_keep_def provided_def)


lemma card_parts_ignore_symptoms:
  "healthStatus (with_recent_symptoms rs m) = healthStatus m"
  "bmi_line num_str (with_recent_symptoms rs m) = bmi_line num_str m"
  by (simp_all add: healthStatus_def bmi_line_def with_recent_symptoms_def split: option.splits)

text \<open>
  C2. For a member whose \<^verbatim>\<open>access_level\<close> is not \<open>full\<close>, the rendered card is the
  same whatever \<^verbatim>\<open>health_summary.recent_symptoms\<close> holds: two payloads that differ
  only there give the same card, in particular the card of the payload without any
  recent symptoms.
\<close>

theorem limited_member_card_hides_recent_symptoms:
  assumes "access_level m \<noteq> Some ''full''"
  shows "member_card num_str (with_recent_symptoms rs m) = member_card num_str m"
proof -
  have fields: "access_level (with_recent_symptoms rs m) = access_level m"
    "relationship (with_recent_symptoms rs m) = relationship m"
    "name (with_recent_symptoms rs m) = name m"
    "user_id (with_recent_symptoms rs m) = user_id m"
    "age (with_recent_symptoms rs m) = age m"
    "gender (with_recent_symptoms rs m) = gender m"
    by (simp_all add: with_recent_symptoms_def)
  show ?thesis
    unfolding member_card_def fields card_parts_ignore_symptoms
    using assms by simp
qed

theorem limited_member_card_hides_recent_symptoms_witness:
  "member_card (\<lambda>n. ''7'')
     (with_recent_symptoms (Some [\<lparr>severity = Fin 7, symptom_name = ''Fever'', date = Some ''2024-01-02''\<rparr>])
        \<lparr>user_id = Some (Fin 7), name = Some ''Asha'', relationship = Some ''mother'',
          age = None, gender = None, access_level = Some ''limited'',
          health_summary = Some \<lparr>bmi = None, bmi_category = None,
             latest_risk_assessment = None, recent_symptoms = None\<rparr>\<rparr>)
   = member_card (\<lambda>n. ''7'')
        \<lparr>user_id = Some (Fin 7), name = Some ''Asha'', relationship = Some ''mother'',
          age = None, gender = None, access_level = Some ''limited'',
          health_summary = Some \<lparr>bmi = None, bmi_category = None,
             latest_risk_assessment = None, recent_symptoms = None\<rparr>\<rparr>
   \<and> symptomsHtml (\<lambda>n. ''7'')
     (with_recent_symptoms (Some [\<lparr>severity = Fin 7, symptom_name = ''Fever'', date = Some ''2024-01-02''\<rparr>])
        \<lparr>user_id = Some (Fin 7), name = Some ''Asha'', relationship = Some ''mother'',
          age = None, gender = None, access_level = Some ''limited'',
          health_summary = Some \<lparr>bmi = None, bmi_category = None,
             latest_risk_assessment = None, recent_symptoms = None\<rparr>\<rparr>) \<noteq> []"
  using limited_member_card_hides_recent_symptoms
    [of "\<lparr>user_id = Some (Fin 7), name = Some ''Asha'', relationship = Some ''mother'',
          age = None, gender = None, access_level = Some ''limited'',
          health_summary = Some \<lparr>bmi = None, bmi_category = None,
             latest_risk_assessment = None, recent_symptoms = None\<rparr>\<rparr>"
        "\<lambda>n. ''7''"
        "Some [\<lparr>severity = Fin 7, symptom_name = ''Fever'', date = Some ''2024-01-02''\<rparr>]"]
  by (simp add: symptomsHtml_def with_recent_symptoms_def)


text \<open>
  What the two validating handlers do stop: a symptom form with no symptom selected,
  an empty severity or a severity whose number is below 1 or above 10, and a metric
  form with no metric type, an empty value or a value whose number is NaN, return
  before \<^verbatim>\<open>fetch\<close> with one error toast, the requests and the form as before.
\<close>

lemma guarded_submissions_issue_no_request:
  "(symptomId sf = [] \<or> symptomSeverity sf = []
      \<or> num_lt (to_number (symptomSeverity sf)) (Fin 1)
      \<or> num_gt (to_number (symptomSeverity sf)) (Fin 10)
    \<longrightarrow> (\<exists>msg. saveSymptomRecord to_number parse sdefaults uid resp (sf, fx)
                  = (sf, fx\<lparr>toasts := toasts fx @ [(msg, ''error'')]\<rparr>)))
   \<and> (metricType mf = [] \<or> metricValue mf = [] \<or> to_number (metricValue mf) = NaN
    \<longrightarrow> (\<exists>msg. addHealthMetric to_number parse mdefaults uid resp (mf, fx)
                  = (mf, fx\<lparr>toasts := toasts fx @ [(msg, ''error'')]\<rparr>)))"
  by (auto simp: saveSymptomRecord_def addHealthMetric_def showNotification_def)

text \<open>
  C7. Submissions that fail validation do reach \<^verbatim>\<open>fetch\<close>. In
  \<^verbatim>\<open>saveSymptomRecord\<close> the severity text \<^verbatim>\<open>abc\<close> is NaN as a number, both
  comparisons are false, and the record is posted. In \<^verbatim>\<open>addHealthMetric\<close> the
  blank value of one space is 0 as a number, \<^verbatim>\<open>isNaN\<close> is false, and the metric is
  posted. The add-symptom handlers \<^verbatim>\<open>#addSymptomBtn.onclick\<close> and
  \<^verbatim>\<open>handleAddSymptom\<close> test nothing: whatever their inputs hold, a missing symptom
  and any severity included, they post.
\<close>

theorem invalid_submissions_reach_fetch:
  "saveSymptomRecord example_to_number example_dates sdefaults ''42'' (HttpResponse True True)
       (\<lparr>symptomId = ''3'', symptomSeverity = ''abc'', symptomNotes = [], symptomDatetime = [],
         medicationTaken = [], doctorVisited = False\<rparr>,
        \<lparr>toasts = [], alerts = [], requests = [], refreshes = 0, unhandled = 0\<rparr>)
     = (sdefaults,
        \<lparr>toasts = [(''Symptom recorded successfully'', ''success'')], alerts = [],
         requests = [(POST, ''/api/users/42/symptoms'')], refreshes = 1, unhandled = 0\<rparr>)
   \<and> addHealthMetric example_to_number example_dates mdefaults ''42'' (HttpResponse True True)
       (\<lparr>metricType = ''weight'', metricValue = '' '', metricUnit = ''kg'', metricDate = []\<rparr>,
        \<lparr>toasts = [], alerts = [], requests = [], refreshes = 0, unhandled = 0\<rparr>)
     = (mdefaults,
        \<lparr>toasts = [(''Health metric added successfully'', ''success'')], alerts = [],
         requests = [(POST, ''/api/users/42/health-metrics'')], refreshes = 1, unhandled = 0\<rparr>)
   \<and> requests (addSymptomBtn_onclick resp fx) = requests fx @ [(POST, ''/api/user/symptom'')]
   \<and> requests (handleAddSymptom resp fx) = requests fx @ [(POST, ''/api/user/symptom'')]"
proof -
  have a: "requests (addSymptomBtn_onclick resp fx) = requests fx @ [(POST, ''/api/user/symptom'')]"
    by (cases resp) (simp_all add: addSymptomBtn_onclick_def fetch_def refresh_def)
  have h: "requests (handleAddSymptom resp fx) = requests fx @ [(POST, ''/api/user/symptom'')]"
    by (cases resp) (simp_all add: handleAddSymptom_def fetch_def refresh_def Let_def
          split: bool.splits)
  show ?thesis
    using a h
    by (simp add: saveSymptomRecord_def addHealthMetric_def showNotification_def fetch_def
          refresh_def request_fails_def example_to_number_def num_gt_def)
qed


text \<open>
  The two handlers the specification names behave as it says when the request fails:
  \<^verbatim>\<open>predictRisks\<close> puts the button back (label and enabled state as before the click,
  no spinner left) and raises an error toast; \<^verbatim>\<open>addHealthMetric\<close> raises an error
  toast and leaves the form values as they were (for a metric date that is empty or
  parses).
\<close>

lemma predictRisks_failure_restores_button:
  assumes "request_fails resp" and "disabled btn = False"
  shows "predictRisks uid resp (btn, fx)
       = (btn, (fetch POST (''/api/users/'' @ uid @ ''/predict-health-risks'') fx)
               \<lparr>toasts := toasts fx
                  @ [(''Error performing risk assessment. Please try again.'', ''error'')]\<rparr>)"
  using assms
  by (simp add: predictRisks_def predictRisks_click_def predictRisks_settle_def
        showNotification_def fetch_def)

lemma addHealthMetric_failure_keeps_form:
  assumes "request_fails resp"
    and "metricType mf \<noteq> []" "metricValue mf \<noteq> []" "to_number (metricValue mf) \<noteq> NaN"
    and "metricDate mf = [] \<or> parse (metricDate mf) \<noteq> None"
  shows "addHealthMetric to_number parse mdefaults uid resp (mf, fx)
       = (mf, (fetch POST (''/api/users/'' @ uid @ ''/health-metrics'') fx)
              \<lparr>toasts := toasts fx
                 @ [(''Error adding health metric. Please try again.'', ''error'')]\<rparr>)"
  using assms
  by (auto simp: addHealthMetric_def showNotification_def fetch_def Let_def)

lemma handleAddSymptom_failure_alerts:
  "handleAddSymptom NetworkFailure fx
     = (fetch POST ''/api/user/symptom'' fx)
         \<lparr>alerts := alerts fx @ [''Could not add symptom. Please try again.'']\<rparr>"
  by (simp add: handleAddSymptom_def fetch_def Let_def)

text \<open>
  C6. The add-symptom click handler at the end of \<^verbatim>\<open>symptom_timeline.js\<close> surfaces
  nothing when its request fails: whatever the response, it adds no toast and no
  alert; after a network failure the page has the request and one more unhandled
  rejection; after a response that is not \<^verbatim>\<open>ok\<close> it refreshes the list as after a
  success.
\<close>

theorem addSymptomBtn_onclick_failure_not_surfaced:
  "toasts (addSymptomBtn_onclick resp fx) = toasts fx
   \<and> alerts (addSymptomBtn_onclick resp fx) = alerts fx
   \<and> addSymptomBtn_onclick NetworkFailure fx
       = fx\<lparr>requests := requests fx @ [(POST, ''/api/user/symptom'')],
            unhandled := Suc (unhandled fx)\<rparr>
   \<and> addSymptomBtn_onclick (HttpResponse False body) fx
       = fx\<lparr>requests := requests fx @ [(POST, ''/api/user/symptom'')],
            refreshes := Suc (refreshes fx)\<rparr>"
  by (cases resp) (simp_all add: addSymptomBtn_onclick_def fetch_def refresh_def)


lemma insert_sorted_asc:
  assumes "tv a \<noteq> None" "\<forall>k \<in> set bs. tv k \<noteq> None"
  shows "insert_sorted (\<lambda>a b. date_minus (tv a) (tv b)) a bs
       = insort_key (\<lambda>k. the (tv k)) a bs"
  using assms by (induction bs) (auto simp: date_minus_def num_gt_def)


lemma array_sort_asc:
  assumes "\<forall>k \<in> set xs. tv k \<noteq> None"
  shows "array_sort (\<lambda>a b. date_minus (tv a) (tv b)) xs = sort_key (\<lambda>k. the (tv k)) xs"
  using assms
proof (induction xs)
  case Nil
  then show ?case by (simp add: array_sort_def)
next
  case (Cons x xs)
  then have ih: "array_sort (\<lambda>a b. date_minus (tv a) (tv b)) xs
       = sort_key (\<lambda>k. the (tv k)) xs" by simp
  have "array_sort (\<lambda>a b. date_minus (tv a) (tv b)) (x # xs)
      = insert_sorted (\<lambda>a b. date_minus (tv a) (tv b)) x (sort_key (\<lambda>k. the (tv k)) xs)"
    using ih by (simp add: array_sort_def)
  also have "\<dots> = insort_key (\<lambda>k. the (tv k)) x (sort_key (\<lambda>k. the (tv k)) xs)"
    using Cons.prems by (intro insert_sorted_asc) auto
  finally show ?case by simp
qed

lemma mset_object_keys: "mset (object_keys obj) = mset (map fst obj)"
  by (simp add: object_keys_def)

lemma set_object_keys: "set (object_keys obj) = fst ` set obj"
  using mset_object_keys [of obj] by (metis set_mset_mset set_map)


lemma map_fst_push_group:
  "map fst (push_group k r obj) = (if k \<in> fst ` set obj then map fst obj else map fst obj @ [k])"
  by (induction obj) (force simp: image_iff)+

lemma lookup_push_group:
  "lookup (push_group k r obj) k' = (if k' = k then lookup obj k @ [r] else lookup obj k')"
  by (induction obj) (auto simp: lookup_def)


lemma pushes_keys: "fst ` set (pushes key val rs obj) = fst ` set obj \<union> key ` set rs"
proof (induction rs arbitrary: obj)
  case Nil show ?case by (simp add: pushes_def)
next
  case (Cons r rs)
  have "fst ` set (push_group (key r) (val r) obj) = insert (key r) (fst ` set obj)"
    using arg_cong [OF map_fst_push_group [of "key r" "val r" obj], of set]
    by (auto split: if_splits)
  then show ?case using Cons [of "push_group (key r) (val r) obj"] by (auto simp: pushes_def)
qed


lemma pushes_lookup:
  "lookup (pushes key val rs obj) k = lookup obj k @ map val (filter (\<lambda>r. key r = k) rs)"
  by (induction rs arbitrary: obj) (auto simp: pushes_def lookup_push_group)

lemma lookup_empty: "lookup [] k = []"
  by (simp add: lookup_def)






text \<open>
  What the predictor's loop does log: the assessments without \<^verbatim>\<open>assessment_date\<close>
  are warned about, in order, and are in no group.
\<close>

lemma groupedAssessments_warned:
  "warned (groupedAssessments parse fmt as g)
     = warned g @ filter (\<lambda>a. \<not> provided (assessment_date a)) as"
  by (induction as arbitrary: g) (auto simp: group_entry_def)





text \<open>
  The risk predictor sorts its groups by the date that \<^verbatim>\<open>new Date\<close> reads back from
  the key, the text written by \<^verbatim>\<open>toLocaleDateString()\<close>. In a day-first locale the
  text is read month first, and the group of 2 January 2024 comes before the group of
  1 February 2024.
\<close>

lemma assessment_groups_day_first_locale:
  "assessment_date_groups example_day_first_dates example_en_GB
     [\<lparr>disease_name = ''Diabetes'', assessment_date = Some ''2024-02-01''\<rparr>,
      \<lparr>disease_name = ''Asthma'', assessment_date = Some ''2024-01-02''\<rparr>]
   = [(''02/01/2024'', [\<lparr>disease_name = ''Asthma'', assessment_date = Some ''2024-01-02''\<rparr>]),
      (''01/02/2024'', [\<lparr>disease_name = ''Diabetes'', assessment_date = Some ''2024-02-01''\<rparr>])]"
  by (simp add: assessment_date_groups_def group_entry_def object_prototype_names_def
      sortedDates_def object_keys_def array_index_def is_digit_def array_sort_def lookup_def
      example_day_first_dates_def example_en_GB_def assessment_day_def
      toLocaleDateString_def provided_def date_minus_def num_gt_def)




text \<open>
  C8. An assessment whose \<^verbatim>\<open>assessment_date\<close> is not a date is grouped under
  \<^verbatim>\<open>Invalid Date\<close> and nothing is logged; a symptom without \<^verbatim>\<open>date\<close> is grouped
  under \<^verbatim>\<open>undefined\<close>. Neither is left out of the grouped output.
\<close>

theorem unparsable_dates_are_grouped:
  "groupedAssessments example_dates example_en_US
     [\<lparr>disease_name = ''Diabetes'', assessment_date = Some ''not-a-date''\<rparr>]
     \<lparr>groups = [], warned = [], failed = []\<rparr>
   = \<lparr>groups = [(''Invalid Date'',
                  [\<lparr>disease_name = ''Diabetes'', assessment_date = Some ''not-a-date''\<rparr>])],
      warned = [], failed = []\<rparr>
   \<and> assessment_date_groups example_dates example_en_US
     [\<lparr>disease_name = ''Diabetes'', assessment_date = Some ''not-a-date''\<rparr>]
   = [(''Invalid Date'', [\<lparr>disease_name = ''Diabetes'', assessment_date = Some ''not-a-date''\<rparr>])]
   \<and> symptom_date_groups example_dates
     [\<lparr>severity = Fin 4, symptom_name = ''Fever'', date = None\<rparr>]
   = Inr [(''undefined'', [\<lparr>severity = Fin 4, symptom_name = ''Fever'', date = None\<rparr>])]"
  by (simp add: symptom_date_groups_def assessment_date_groups_def group_entry_def
      object_prototype_names_def interp_def sortedDates_def object_keys_def
      array_index_def is_digit_def array_sort_def lookup_def example_dates_def
      assessment_day_def toLocaleDateString_def provided_def)

lemma grouped_pushes:
  assumes "\<forall>s \<in> set ss. interp (symptom s) \<notin> set object_prototype_names"
  shows "grouped parse parseInt ss obj
       = Inr (pushes (\<lambda>s. interp (symptom s)) (symptom_point parse parseInt) ss obj)"
  using assms by (induction ss arbitrary: obj) (auto simp: pushes_def group_entry_def)

lemma series_of_datasets:
  "(\<lambda>c. (series_label c, series_data c)) ` set (symptom_chart_datasets obj)
     = (\<lambda>k. (k, array_sort (\<lambda>a b. date_minus (x_time a) (x_time b)) (lookup obj k)))
         ` fst ` set obj"
proof -
  let ?G = "\<lambda>k. (k, array_sort (\<lambda>a b. date_minus (x_time a) (x_time b)) (lookup obj k))"
  have "map (\<lambda>c. (series_label c, series_data c)) (symptom_chart_datasets obj)
      = map (?G \<circ> snd) (enumerate 0 (object_keys obj))"
    by (simp add: symptom_chart_datasets_def comp_def case_prod_unfold)
  also have "\<dots> = map ?G (map snd (enumerate 0 (object_keys obj)))"
    by (simp only: map_map)
  also have "\<dots> = map ?G (object_keys obj)"
    by (simp only: map_snd_enumerate)
  finally have "set (map (\<lambda>c. (series_label c, series_data c)) (symptom_chart_datasets obj))
      = set (map ?G (object_keys obj))"
    by (rule arg_cong)
  then show ?thesis by (simp add: set_object_keys image_image)
qed

lemma sort_key_perm_unique:
  fixes f :: "'a \<Rightarrow> int"
  assumes "mset xs = mset ys" "inj_on f (set xs)"
  shows "sort_key f xs = sort_key f ys"
proof -
  have sets: "set ys = set xs" using assms(1) by (metis set_mset_mset)
  have "mset (map f (sort_key f xs)) = mset (map f (sort_key f ys))"
    using assms(1) by simp
  moreover have "sorted (map f (sort_key f xs))" "sorted (map f (sort_key f ys))" by simp_all
  ultimately have "map f (sort_key f xs) = map f (sort_key f ys)"
    by (metis properties_for_sort)
  moreover have "inj_on f (set (sort_key f xs) \<union> set (sort_key f ys))"
    using assms(2) sets by simp
  ultimately show ?thesis by (simp add: inj_on_map_eq_map)
qed

lemma series_sorted_points:
  fixes key :: "'r \<Rightarrow> string" and pt :: "'r \<Rightarrow> chart_point"
  assumes "\<forall>r \<in> set rs. x_time (pt r) \<noteq> None"
  shows "array_sort (\<lambda>a b. date_minus (x_time a) (x_time b)) (lookup (pushes key pt rs []) k)
       = sort_key (\<lambda>p. the (x_time p)) (map pt (filter (\<lambda>r. key r = k) rs))"
proof -
  have "lookup (pushes key pt rs []) k = map pt (filter (\<lambda>r. key r = k) rs)"
    by (simp add: pushes_lookup lookup_empty)
  moreover have "\<forall>p \<in> set (map pt (filter (\<lambda>r. key r = k) rs)). x_time p \<noteq> None"
    using assms by auto
  ultimately show ?thesis by (simp add: array_sort_asc)
qed

text \<open>
  The symptom chart does sort. When no symptom name is a property name of
  \<^verbatim>\<open>Object.prototype\<close> and every \<^verbatim>\<open>datetime\<close> parses, each symptom's points are
  bound sorted ascending by time; and two inputs holding the same records in different
  orders give, for every symptom, the same label with the same points, provided two
  records of one symptom with the same time give the same point. The order of the
  datasets and their colours follow the order in which the symptom names first occur
  and are not covered. The last conjunct is the metric charts' binding, in payload
  order.
\<close>

lemma symptom_chart_order_independent:
  fixes parse :: "string \<Rightarrow> int option" and parseInt :: "string \<Rightarrow> number"
  defines "pt \<equiv> symptom_point parse parseInt"
  assumes perm: "mset symptoms' = mset symptoms"
    and names: "\<forall>s \<in> set symptoms. interp (symptom s) \<notin> set object_prototype_names"
    and valid: "\<forall>s \<in> set symptoms. x_time (pt s) \<noteq> None"
    and times: "\<forall>s \<in> set symptoms. \<forall>t \<in> set symptoms.
                  interp (symptom s) = interp (symptom t) \<and> x_time (pt s) = x_time (pt t)
                  \<longrightarrow> pt s = pt t"
  shows "(\<exists>ds ds'. renderSymptomChart True parse parseInt symptoms = Inr (Some ds)
           \<and> renderSymptomChart True parse parseInt symptoms' = Inr (Some ds')
           \<and> (\<forall>c \<in> set ds.
                 sorted (map (\<lambda>p. the (x_time p)) (series_data c))
                 \<and> mset (series_data c)
                     = mset (map pt (filter (\<lambda>s. interp (symptom s) = series_label c) symptoms)))
           \<and> (\<lambda>c. (series_label c, series_data c)) ` set ds'
               = (\<lambda>c. (series_label c, series_data c)) ` set ds)
       \<and> renderMetricsCharts (Some ms)
           = map (\<lambda>m. \<lparr>chart_labels = map item_date (metric_data m),
                        chart_values = map item_value (metric_data m)\<rparr>) ms"
proof
  let ?key = "\<lambda>s. interp (symptom s)"
  let ?f = "\<lambda>p. the (x_time p)"
  let ?obj = "pushes ?key pt symptoms []"
  let ?obj' = "pushes ?key pt symptoms' []"
  let ?pts = "\<lambda>k ss. map pt (filter (\<lambda>s. ?key s = k) ss)"
  let ?lab = "\<lambda>c. (series_label c, series_data c)"
  have sets: "set symptoms' = set symptoms"
    using perm by (metis set_mset_mset)
  have r: "renderSymptomChart True parse parseInt symptoms
             = Inr (Some (symptom_chart_datasets ?obj))"
    using names by (simp add: renderSymptomChart_def grouped_pushes pt_def)
  have r': "renderSymptomChart True parse parseInt symptoms'
             = Inr (Some (symptom_chart_datasets ?obj'))"
    using names sets by (simp add: renderSymptomChart_def grouped_pushes pt_def)
  have data: "array_sort (\<lambda>a b. date_minus (x_time a) (x_time b)) (lookup ?obj k)
                = sort_key ?f (?pts k symptoms)" for k
    using valid by (intro series_sorted_points) auto
  have data': "array_sort (\<lambda>a b. date_minus (x_time a) (x_time b)) (lookup ?obj' k)
                = sort_key ?f (?pts k symptoms')" for k
    using valid sets by (intro series_sorted_points) auto
  have same: "sort_key ?f (?pts k symptoms') = sort_key ?f (?pts k symptoms)" for k
  proof (rule sort_key_perm_unique)
    show "mset (?pts k symptoms') = mset (?pts k symptoms)"
      using perm by simp
    show "inj_on ?f (set (?pts k symptoms'))"
      unfolding inj_on_def
    proof (intro ballI impI)
      fix p q assume p: "p \<in> set (?pts k symptoms')" and q: "q \<in> set (?pts k symptoms')"
        and eq: "the (x_time p) = the (x_time q)"
      from p obtain s where s: "s \<in> set symptoms" "?key s = k" "p = pt s"
        using sets by auto
      from q obtain t where t: "t \<in> set symptoms" "?key t = k" "q = pt t"
        using sets by auto
      have "x_time (pt s) = x_time (pt t)"
        using valid s(1,3) t(1,3) eq by (metis option.expand)
      moreover have "interp (symptom s) = interp (symptom t)"
        using s(2) t(2) by simp
      ultimately have "pt s = pt t"
        using times s(1) t(1) by (elim ballE) auto
      then show "p = q" using s(3) t(3) by simp
    qed
  qed
  have img: "?lab ` set (symptom_chart_datasets ?obj)
               = (\<lambda>k. (k, sort_key ?f (?pts k symptoms))) ` ?key ` set symptoms"
    by (simp add: series_of_datasets data pushes_keys)
  have img': "?lab ` set (symptom_chart_datasets ?obj')
               = (\<lambda>k. (k, sort_key ?f (?pts k symptoms))) ` ?key ` set symptoms"
    by (simp add: series_of_datasets data' same pushes_keys sets)
  have each: "sorted (map ?f (series_data c))
              \<and> mset (series_data c) = mset (?pts (series_label c) symptoms)"
    if "c \<in> set (symptom_chart_datasets ?obj)" for c
  proof -
    have "?lab c \<in> (\<lambda>k. (k, sort_key ?f (?pts k symptoms))) ` ?key ` set symptoms"
      using that img by blast
    then have "series_data c = sort_key ?f (?pts (series_label c) symptoms)" by auto
    then show ?thesis by simp
  qed
  show "\<exists>ds ds'. renderSymptomChart True parse parseInt symptoms = Inr (Some ds)
           \<and> renderSymptomChart True parse parseInt symptoms' = Inr (Some ds')
           \<and> (\<forall>c \<in> set ds.
                 sorted (map (\<lambda>p. the (x_time p)) (series_data c))
                 \<and> mset (series_data c)
                     = mset (map pt (filter (\<lambda>s. interp (symptom s) = series_label c) symptoms)))
           \<and> (\<lambda>c. (series_label c, series_data c)) ` set ds'
               = (\<lambda>c. (series_label c, series_data c)) ` set ds"
  proof (intro exI conjI)
    show "renderSymptomChart True parse parseInt symptoms
            = Inr (Some (symptom_chart_datasets ?obj))" by (rule r)
    show "renderSymptomChart True parse parseInt symptoms'
            = Inr (Some (symptom_chart_datasets ?obj'))" by (rule r')
    show "\<forall>c \<in> set (symptom_chart_datasets ?obj).
            sorted (map (\<lambda>p. the (x_time p)) (series_data c))
            \<and> mset (series_data c)
                = mset (map pt (filter (\<lambda>s. interp (symptom s) = series_label c) symptoms))"
      using each by blast
    show "?lab ` set (symptom_chart_datasets ?obj') = ?lab ` set (symptom_chart_datasets ?obj)"
      using img img' by simp
  qed
next
  show "renderMetricsCharts (Some ms)
           = map (\<lambda>m. \<lparr>chart_labels = map item_date (metric_data m),
                        chart_values = map item_value (metric_data m)\<rparr>) ms"
    by (simp add: renderMetricsCharts_def metric_chartData_def)
qed

text \<open>The same two fever records in both orders.\<close>

lemma symptom_chart_order_independent_example:
  "renderSymptomChart True example_dates (\<lambda>v. if v = ''1'' then Fin 1 else Fin 3)
     [\<lparr>symptom = Some ''fever'', severity_input = ''3'', datetime = Some ''2024-01-02''\<rparr>,
      \<lparr>symptom = Some ''fever'', severity_input = ''1'', datetime = Some ''2024-01-01''\<rparr>]
   = Inr (Some [\<lparr>series_label = ''fever'',
                  series_data = [\<lparr>x_time = Some 1704067200000, y_num = Fin 1\<rparr>,
                                 \<lparr>x_time = Some 1704153600000, y_num = Fin 3\<rparr>],
                  borderColor = ''#5E936C''\<rparr>])
   \<and> renderSymptomChart True example_dates (\<lambda>v. if v = ''1'' then Fin 1 else Fin 3)
     [\<lparr>symptom = Some ''fever'', severity_input = ''1'', datetime = Some ''2024-01-01''\<rparr>,
      \<lparr>symptom = Some ''fever'', severity_input = ''3'', datetime = Some ''2024-01-02''\<rparr>]
   = Inr (Some [\<lparr>series_label = ''fever'',
                  series_data = [\<lparr>x_time = Some 1704067200000, y_num = Fin 1\<rparr>,
                                 \<lparr>x_time = Some 1704153600000, y_num = Fin 3\<rparr>],
                  borderColor = ''#5E936C''\<rparr>])"
proof -
  let ?pi = "\<lambda>v. if v = ''1'' then Fin 1 else Fin 3"
  let ?a = "\<lparr>symptom = Some ''fever'', severity_input = ''3'', datetime = Some ''2024-01-02''\<rparr>"
  let ?b = "\<lparr>symptom = Some ''fever'', severity_input = ''1'', datetime = Some ''2024-01-01''\<rparr>"
  have h1: "mset [?b, ?a] = mset [?a, ?b]" by simp
  have h2: "\<forall>s \<in> set [?a, ?b]. interp (symptom s) \<notin> set object_prototype_names"
    by (simp add: interp_def object_prototype_names_def)
  have h3: "\<forall>s \<in> set [?a, ?b]. x_time (symptom_point example_dates ?pi s) \<noteq> None"
    by (simp add: symptom_point_def example_dates_def)
  have h4: "\<forall>s \<in> set [?a, ?b]. \<forall>t \<in> set [?a, ?b].
              interp (symptom s) = interp (symptom t)
              \<and> x_time (symptom_point example_dates ?pi s) = x_time (symptom_point example_dates ?pi t)
              \<longrightarrow> symptom_point example_dates ?pi s = symptom_point example_dates ?pi t"
    by (simp add: symptom_point_def example_dates_def)
  from symptom_chart_order_independent [OF h1 h2 h3 h4] show ?thesis
    by (simp add: renderSymptomChart_def group_entry_def object_prototype_names_def interp_def
          symptom_chart_datasets_def object_keys_def array_index_def is_digit_def
          array_sort_def lookup_def symptom_point_def example_dates_def date_minus_def
          num_gt_def colorList_def enumerate_eq_zip)
qed

text \<open>
  C5. \<^verbatim>\<open>renderMetricsCharts\<close> does not sort: each chart takes the dates and values of
  its metric in payload order. The two heart rate samples of the example bind as 72
  and then 80 when the payload has the older one first, and as 80 and then 72 when it
  has the more recent one first, so the two orders do not bind the same series.
\<close>

theorem renderMetricsCharts_keeps_payload_order:
  "renderMetricsCharts (Some
     [\<lparr>metric_type = ''heart_rate'', metric_unit = Some ''bpm'',
       metric_data = [\<lparr>item_date = ''2024-01-01'', item_value = Fin 72\<rparr>,
                      \<lparr>item_date = ''2024-01-02'', item_value = Fin 80\<rparr>]\<rparr>])
     = [\<lparr>chart_labels = [''2024-01-01'', ''2024-01-02''], chart_values = [Fin 72, Fin 80]\<rparr>]
   \<and> renderMetricsCharts (Some
     [\<lparr>metric_type = ''heart_rate'', metric_unit = Some ''bpm'',
       metric_data = [\<lparr>item_date = ''2024-01-02'', item_value = Fin 80\<rparr>,
                      \<lparr>item_date = ''2024-01-01'', item_value = Fin 72\<rparr>]\<rparr>])
     = [\<lparr>chart_labels = [''2024-01-02'', ''2024-01-01''], chart_values = [Fin 80, Fin 72]\<rparr>]"
  by (simp add: renderMetricsCharts_def metric_chartData_def)

end
